theory Spec2Isabelle
  imports Main
begin

section \<open>The identity stores\<close>

text \<open>
  \<^verbatim>\<open>app/backends.py\<close> resolves one logical user over four Django models: the stock
  \<^verbatim>\<open>User\<close> (the administrators) and the application's \<^verbatim>\<open>Staff\<close>, \<^verbatim>\<open>Parent\<close> and
  \<^verbatim>\<open>Student\<close>. Each model has a table of its own, so a primary key is unique inside one
  table only.
\<close>

datatype model = User | Staff | Parent | Student

text \<open>
  The columns the backend reads. \<open>email\<close> and \<open>phone\<close> are optional (\<open>None\<close> is SQL
  \<^verbatim>\<open>NULL\<close>, which no \<^verbatim>\<open>filter(field=value)\<close> matches); \<open>hashed_password\<close> is the
  column \<^verbatim>\<open>password\<close>, the stored credential, read only by \<^verbatim>\<open>check_password\<close>.
\<close>

record row =
  pk :: int
  email :: "string option"
  phone :: "string option"
  hashed_password :: string
  is_active :: bool

text \<open>
  A Python instance: its class, its column values, the \<^verbatim>\<open>is_anonymous\<close> attribute and
  the dynamically added attribute \<^verbatim>\<open>_group_perm_cache\<close> (\<open>None\<close> when
  \<^verbatim>\<open>hasattr(user_obj, "_group_perm_cache")\<close> is false). Django's anonymous sentinel has
  \<^verbatim>\<open>is_active = False\<close> and \<^verbatim>\<open>is_anonymous = True\<close>; every operation below returns
  on those two attributes before it looks at the class.
\<close>

record user_obj =
  cls :: model
  columns :: row
  is_anonymous :: bool
  group_perm_cache :: "string set option"

text \<open>
  A table lists its rows in the order in which a queryset of the model yields them to
  \<^verbatim>\<open>.first()\<close>. The ORM builds a fresh instance for every row it returns: not
  anonymous, and without the cache attribute.
\<close>

type_synonym db = "model \<Rightarrow> row list"

definition from_db :: "model \<Rightarrow> row \<Rightarrow> user_obj" where
  "from_db m r = \<lparr>cls = m, columns = r, is_anonymous = False, group_perm_cache = None\<rparr>"

datatype lookup = ByPk int | ByEmail string | ByPhone string

fun matches :: "lookup \<Rightarrow> row \<Rightarrow> bool" where
  "matches (ByPk n) r = (pk r = n)"
| "matches (ByEmail s) r = (email r = Some s)"
| "matches (ByPhone s) r = (phone r = Some s)"

text \<open>
  Every access to a store is recorded: \<open>Get\<close> is \<^verbatim>\<open>Model.objects.get(...)\<close>,
  \<open>FilterFirst\<close> is \<^verbatim>\<open>Model.objects.filter(...).first()\<close>, \<open>GroupsAll\<close> is
  \<^verbatim>\<open>user_obj.groups.all()\<close> and \<open>PermissionsValuesList\<close> is
  \<^verbatim>\<open>group.permissions.values_list("content_type__app_label", "codename")\<close>.
\<close>

datatype query =
    Get model lookup
  | FilterFirst model lookup
  | GroupsAll model int
  | PermissionsValuesList int

datatype exn =
    DoesNotExist model
  | MultipleObjectsReturned model
  | TypeError
  | ValueError
  | OverflowError

text \<open>
  A computation yields an exception or a value, together with the store accesses it made,
  in order.
\<close>

type_synonym 'a io = "(exn + 'a) \<times> query list"

definition return_io :: "'a \<Rightarrow> 'a io" where
  "return_io x = (Inr x, [])"

definition raise_io :: "exn \<Rightarrow> 'a io" where
  "raise_io e = (Inl e, [])"

definition bind_io :: "'a io \<Rightarrow> ('a \<Rightarrow> 'b io) \<Rightarrow> 'b io" where
  "bind_io m f =
     (case m of
        (Inl e, qs) \<Rightarrow> (Inl e, qs)
      | (Inr x, qs) \<Rightarrow> (case f x of (r, qs') \<Rightarrow> (r, qs @ qs')))"

text \<open>\<^verbatim>\<open>try: body except E: handler\<close>, with \<open>handles\<close> the exceptions \<^verbatim>\<open>E\<close> catches.\<close>

definition try_except :: "'a io \<Rightarrow> (exn \<Rightarrow> bool) \<Rightarrow> 'a io \<Rightarrow> 'a io" where
  "try_except body handles handler =
     (case body of
        (Inl e, qs) \<Rightarrow>
          (if handles e then (case handler of (r, qs') \<Rightarrow> (r, qs @ qs')) else (Inl e, qs))
      | (Inr x, qs) \<Rightarrow> (Inr x, qs))"

text \<open>
  \<^verbatim>\<open>Model.objects.get(...)\<close>: the one matching row, \<^verbatim>\<open>DoesNotExist\<close> when there is
  none, \<^verbatim>\<open>MultipleObjectsReturned\<close> when there are several.
\<close>

definition objects_get :: "db \<Rightarrow> model \<Rightarrow> lookup \<Rightarrow> user_obj io" where
  "objects_get d m lk =
     (case filter (matches lk) (d m) of
        [] \<Rightarrow> (Inl (DoesNotExist m), [Get m lk])
      | [r] \<Rightarrow> (Inr (from_db m r), [Get m lk])
      | _ \<Rightarrow> (Inl (MultipleObjectsReturned m), [Get m lk]))"

text \<open>\<^verbatim>\<open>Model.objects.filter(...).first()\<close>: the first matching row, or \<^verbatim>\<open>None\<close>.\<close>

definition objects_filter_first :: "db \<Rightarrow> model \<Rightarrow> lookup \<Rightarrow> user_obj option io" where
  "objects_filter_first d m lk =
     (Inr (case filter (matches lk) (d m) of [] \<Rightarrow> None | r # _ \<Rightarrow> Some (from_db m r)),
      [FilterFirst m lk])"

section \<open>authenticate\<close>

text \<open>
  \<^verbatim>\<open>MultiModelBackend.authenticate(self, request, username=None, password=None)\<close>.
  \<^verbatim>\<open>check_password\<close> is the credential check every model instance offers; hashing is
  outside the backend, so it is a parameter. \<^verbatim>\<open>if staff: if staff.check_password(...)\<close>
  is the \<open>case\<close> in each condition (a model instance is truthy, \<^verbatim>\<open>None\<close> is not).
\<close>

definition authenticate ::
  "(user_obj \<Rightarrow> string \<Rightarrow> bool) \<Rightarrow> db \<Rightarrow> string option \<Rightarrow> string option \<Rightarrow> user_obj option io"
where
  "authenticate check_password d username password =
     (case username of
        None \<Rightarrow> return_io None
      | Some u \<Rightarrow>
     (case password of
        None \<Rightarrow> return_io None
      | Some p \<Rightarrow>
        bind_io
          (try_except
             (bind_io (objects_get d User (ByEmail u))
                (\<lambda>user. return_io (if check_password user p then Some user else None)))
             (\<lambda>e. e = DoesNotExist User)
             (return_io None))
          (\<lambda>admin.
        if admin \<noteq> None then return_io admin else
        bind_io (objects_filter_first d Staff (ByPhone u)) (\<lambda>staff.
        if (case staff of None \<Rightarrow> False | Some s \<Rightarrow> check_password s p) then return_io staff else
        bind_io (objects_filter_first d Staff (ByEmail u)) (\<lambda>staff.
        if (case staff of None \<Rightarrow> False | Some s \<Rightarrow> check_password s p) then return_io staff else
        bind_io (objects_filter_first d Parent (ByPhone u)) (\<lambda>parent.
        if (case parent of None \<Rightarrow> False | Some s \<Rightarrow> check_password s p) then return_io parent else
        bind_io (objects_filter_first d Student (ByPhone u)) (\<lambda>student.
        if (case student of None \<Rightarrow> False | Some s \<Rightarrow> check_password s p) then return_io student else
        bind_io (objects_filter_first d Student (ByEmail u)) (\<lambda>student.
        if (case student of None \<Rightarrow> False | Some s \<Rightarrow> check_password s p) then return_io student else
        return_io None))))))))"

section \<open>get_user\<close>

text \<open>\<^verbatim>\<open>_USER_MODEL_MAP\<close> and \<^verbatim>\<open>_GET_USER_ORDER\<close>.\<close>

definition USER_MODEL_MAP :: "string \<rightharpoonup> model" where
  "USER_MODEL_MAP =
     [''student'' \<mapsto> Student, ''staff'' \<mapsto> Staff, ''parent'' \<mapsto> Parent, ''user'' \<mapsto> User]"

definition GET_USER_ORDER :: "model list" where
  "GET_USER_ORDER = [Student, Parent, Staff, User]"

text \<open>
  The current request as \<^verbatim>\<open>get_current_request()\<close> returns it: \<open>None\<close> when there is
  none; its \<open>session\<close> is \<open>None\<close> when the request has no such attribute, and a dictionary
  otherwise.
\<close>

record request =
  session :: "(string \<rightharpoonup> string) option"

text \<open>
  The model the session names: the two nested \<^verbatim>\<open>if\<close>s before the lookup by tag. A
  label must be truthy (not the empty string) and a key of \<^verbatim>\<open>_USER_MODEL_MAP\<close>.
\<close>

definition session_model :: "request option \<Rightarrow> model option" where
  "session_model current_request =
     (case current_request of
        None \<Rightarrow> None
      | Some req \<Rightarrow>
     (case session req of
        None \<Rightarrow> None
      | Some sess \<Rightarrow>
     (case sess ''_auth_user_model'' of
        None \<Rightarrow> None
      | Some model_label \<Rightarrow>
          if model_label \<noteq> [] \<and> model_label \<in> dom USER_MODEL_MAP
          then USER_MODEL_MAP model_label else None)))"

text \<open>
  The loop \<^verbatim>\<open>for model in _GET_USER_ORDER: try: return model.objects.get(pk=user_id)
  except model.DoesNotExist: continue\<close>, and the \<^verbatim>\<open>return None\<close> after it.
\<close>

fun get_user_loop :: "db \<Rightarrow> int \<Rightarrow> model list \<Rightarrow> user_obj option io" where
  "get_user_loop d user_id [] = return_io None"
| "get_user_loop d user_id (m # ms) =
     try_except
       (bind_io (objects_get d m (ByPk user_id)) (\<lambda>u. return_io (Some u)))
       (\<lambda>e. e = DoesNotExist m)
       (get_user_loop d user_id ms)"

text \<open>
  \<^verbatim>\<open>MultiModelBackend.get_user(self, user_id)\<close>. \<open>py_int\<close> is Python's \<^verbatim>\<open>int(...)\<close> on
  the raw id, a builtin: it yields the integer or raises; \<open>current_request\<close> is what
  \<^verbatim>\<open>get_current_request()\<close> returns.
\<close>

definition get_user ::
  "('a \<Rightarrow> exn + int) \<Rightarrow> db \<Rightarrow> request option \<Rightarrow> 'a option \<Rightarrow> user_obj option io"
where
  "get_user py_int d current_request user_id =
     (case user_id of
        None \<Rightarrow> return_io None
      | Some raw \<Rightarrow>
     (case py_int raw of
        Inl e \<Rightarrow> if e = TypeError \<or> e = ValueError then return_io None else raise_io e
      | Inr n \<Rightarrow>
     (case session_model current_request of
        Some m \<Rightarrow>
          try_except
            (bind_io (objects_get d m (ByPk n)) (\<lambda>u. return_io (Some u)))
            (\<lambda>e. e = DoesNotExist m)
            (return_io None)
      | None \<Rightarrow> get_user_loop d n GET_USER_ORDER)))"

section \<open>Permissions\<close>

text \<open>
  The group store: \<open>user_groups gs m k\<close> are the primary keys of the groups that
  \<^verbatim>\<open>user_obj.groups.all()\<close> yields for the instance of model \<open>m\<close> with primary key
  \<open>k\<close>, and \<open>group_permissions gs g\<close> are the pairs that
  \<^verbatim>\<open>group.permissions.values_list("content_type__app_label", "codename")\<close> yields for
  group \<open>g\<close>.
\<close>

record gstore =
  user_groups :: "model \<Rightarrow> int \<Rightarrow> int list"
  group_permissions :: "int \<Rightarrow> (string \<times> string) list"

text \<open>\<^verbatim>\<open>"%s.%s" % (ct, name)\<close>.\<close>

definition perm_string :: "string \<times> string \<Rightarrow> string" where
  "perm_string = (\<lambda>(ct, name). ct @ ''.'' @ name)"

text \<open>The loop \<^verbatim>\<open>for group in user_obj.groups.all(): perms.update(...)\<close>.\<close>

fun update_perms :: "gstore \<Rightarrow> string set \<Rightarrow> int list \<Rightarrow> string set" where
  "update_perms gs perms [] = perms"
| "update_perms gs perms (g # groups) =
     update_perms gs (perms \<union> set (map perm_string (group_permissions gs g))) groups"

text \<open>
  A permission operation returns its value, the instance as the call leaves it (the cache
  attribute may have been set) and the store accesses it made.
\<close>

type_synonym 'a perm_io = "'a \<times> user_obj \<times> query list"

text \<open>
  \<^verbatim>\<open>MultiModelBackend.get_group_permissions(self, user_obj, obj=None)\<close>. The first
  parameter is \<^verbatim>\<open>super().get_group_permissions\<close>, Django's, which the backend calls for
  the instances of the other classes.
\<close>

definition get_group_permissions ::
  "(user_obj \<Rightarrow> 'o option \<Rightarrow> string set perm_io) \<Rightarrow> gstore \<Rightarrow> user_obj \<Rightarrow> 'o option
     \<Rightarrow> string set perm_io"
where
  "get_group_permissions super_get_group_permissions gs user_obj obj =
     (if \<not> is_active (columns user_obj) \<or> is_anonymous user_obj \<or> obj \<noteq> None
      then ({}, user_obj, [])
      else if cls user_obj \<in> {Staff, Student} then
        (case group_perm_cache user_obj of
           None \<Rightarrow>
             (let groups = user_groups gs (cls user_obj) (pk (columns user_obj));
                  perms = update_perms gs {} groups
              in (perms, user_obj\<lparr>group_perm_cache := Some perms\<rparr>,
                  GroupsAll (cls user_obj) (pk (columns user_obj))
                    # map PermissionsValuesList groups))
         | Some cache \<Rightarrow> (cache, user_obj, []))
      else super_get_group_permissions user_obj obj)"

text \<open>
  \<^verbatim>\<open>MultiModelBackend.get_all_permissions(self, user_obj, obj=None)\<close>; its first
  parameter is \<^verbatim>\<open>super().get_all_permissions\<close>.
\<close>

definition get_all_permissions ::
  "(user_obj \<Rightarrow> 'o option \<Rightarrow> string set perm_io) \<Rightarrow> (user_obj \<Rightarrow> 'o option \<Rightarrow> string set perm_io)
     \<Rightarrow> gstore \<Rightarrow> user_obj \<Rightarrow> 'o option \<Rightarrow> string set perm_io"
where
  "get_all_permissions super_get_all_permissions super_get_group_permissions gs user_obj obj =
     (if \<not> is_active (columns user_obj) \<or> is_anonymous user_obj \<or> obj \<noteq> None
      then ({}, user_obj, [])
      else if cls user_obj \<in> {Staff, Student}
      then get_group_permissions super_get_group_permissions gs user_obj obj
      else super_get_all_permissions user_obj obj)"

text \<open>
  \<^verbatim>\<open>super().has_perm\<close> is Django's \<^verbatim>\<open>ModelBackend.has_perm\<close>, which is not a file
  of the repository: \<^verbatim>\<open>user_obj.is_active and perm in self.get_all_permissions(user_obj,
  obj=obj)\<close>. \<^verbatim>\<open>self\<close> is the \<^verbatim>\<open>MultiModelBackend\<close>, so the call lands on the
  override above, passed here as \<open>self_get_all_permissions\<close>.
\<close>

definition ModelBackend_has_perm ::
  "(user_obj \<Rightarrow> 'o option \<Rightarrow> string set perm_io) \<Rightarrow> user_obj \<Rightarrow> string \<Rightarrow> 'o option
     \<Rightarrow> bool perm_io"
where
  "ModelBackend_has_perm self_get_all_permissions user_obj perm obj =
     (if \<not> is_active (columns user_obj) then (False, user_obj, [])
      else (case self_get_all_permissions user_obj obj of
              (perms, user_obj', qs) \<Rightarrow> (perm \<in> perms, user_obj', qs)))"

text \<open>\<^verbatim>\<open>MultiModelBackend.has_perm(self, user_obj, perm, obj=None)\<close>.\<close>

definition has_perm ::
  "(user_obj \<Rightarrow> 'o option \<Rightarrow> string set perm_io) \<Rightarrow> (user_obj \<Rightarrow> 'o option \<Rightarrow> string set perm_io)
     \<Rightarrow> gstore \<Rightarrow> user_obj \<Rightarrow> string \<Rightarrow> 'o option \<Rightarrow> bool perm_io"
where
  "has_perm super_get_all_permissions super_get_group_permissions gs user_obj perm obj =
     (if \<not> is_active (columns user_obj) then (False, user_obj, [])
      else if cls user_obj \<in> {Staff, Student} then
        (case get_all_permissions super_get_all_permissions super_get_group_permissions
                gs user_obj obj of
           (perms, user_obj', qs) \<Rightarrow> (perm \<in> perms, user_obj', qs))
      else ModelBackend_has_perm
             (get_all_permissions super_get_all_permissions super_get_group_permissions gs)
             user_obj perm obj)"

section \<open>The search order as the specification words it\<close>

text \<open>
  The specification describes \<open>Authenticate\<close> as six probes, each a kind and a field, tried
  in a fixed order: a probe looks the identifier up, verifies the secret of the record it
  found, and either ends the search with that principal or passes on to the next probe.
  \<open>run_probes\<close> follows these words; it returns the principal, if any, and the probes it
  ran.
\<close>

definition PROBES :: "(model \<times> (string \<Rightarrow> lookup)) list" where
  "PROBES =
     [(User, ByEmail), (Staff, ByPhone), (Staff, ByEmail),
      (Parent, ByPhone), (Student, ByPhone), (Student, ByEmail)]"

fun run_probes ::
  "(user_obj \<Rightarrow> string \<Rightarrow> bool) \<Rightarrow> db \<Rightarrow> string \<Rightarrow> string \<Rightarrow> (model \<times> (string \<Rightarrow> lookup)) list
     \<Rightarrow> user_obj option \<times> (model \<times> lookup) list"
where
  "run_probes check_password d u p [] = (None, [])"
| "run_probes check_password d u p ((m, field) # probes) =
     (case find (matches (field u)) (d m) of
        Some r \<Rightarrow>
          if check_password (from_db m r) p then (Some (from_db m r), [(m, field u)])
          else (case run_probes check_password d u p probes of
                  (res, done_probes) \<Rightarrow> (res, (m, field u) # done_probes))
      | None \<Rightarrow>
          (case run_probes check_password d u p probes of
             (res, done_probes) \<Rightarrow> (res, (m, field u) # done_probes)))"

text \<open>The store and the lookup a recorded query addresses.\<close>

fun query_target :: "query \<Rightarrow> (model \<times> lookup) option" where
  "query_target (Get m lk) = Some (m, lk)"
| "query_target (FilterFirst m lk) = Some (m, lk)"
| "query_target (GroupsAll m k) = None"
| "query_target (PermissionsValuesList g) = None"

section \<open>Stores for the examples\<close>

text \<open>
  The examples below run the operations on small stores: \<open>tables\<close> builds one from the
  rows of the \<^verbatim>\<open>User\<close>, \<^verbatim>\<open>Staff\<close>, \<^verbatim>\<open>Parent\<close> and \<^verbatim>\<open>Student\<close> tables, in this
  order, and \<open>plaintext_check\<close> is a \<^verbatim>\<open>check_password\<close> that compares the secret with
  the stored credential as it is. The theorems hold for every store and every check.
\<close>

definition tables :: "row list \<Rightarrow> row list \<Rightarrow> row list \<Rightarrow> row list \<Rightarrow> db" where
  "tables users staff parents students = case_model users staff parents students"

definition plaintext_check :: "user_obj \<Rightarrow> string \<Rightarrow> bool" where
  "plaintext_check user raw = (hashed_password (columns user) = raw)"

text \<open>
  Three raw ids and what \<^verbatim>\<open>int(...)\<close> does on them: an integer is returned as it is,
  \<^verbatim>\<open>int(float("inf"))\<close> raises \<^verbatim>\<open>OverflowError\<close>, and \<^verbatim>\<open>int("not-a-number")\<close>
  raises \<^verbatim>\<open>ValueError\<close>.
\<close>

datatype raw_id = PyInt int | PyFloatInf | PyNotANumber

fun int_of_raw_id :: "raw_id \<Rightarrow> exn + int" where
  "int_of_raw_id (PyInt n) = Inr n"
| "int_of_raw_id PyFloatInf = Inl OverflowError"
| "int_of_raw_id PyNotANumber = Inl ValueError"

section \<open>Auxiliary facts\<close>

lemma tables_simps [simp]:
  "tables users staff parents students User = users"
  "tables users staff parents students Staff = staff"
  "tables users staff parents students Parent = parents"
  "tables users staff parents students Student = students"
  by (simp_all add: tables_def)

lemma all_model: "(\<forall>m. P m) = (P User \<and> P Staff \<and> P Parent \<and> P Student)"
proof
  assume "P User \<and> P Staff \<and> P Parent \<and> P Student"
  then show "\<forall>m. P m" by (auto intro: model.induct)
qed simp

lemma plaintext_check_simp [simp]:
  "plaintext_check user raw = (hashed_password (columns user) = raw)"
  by (simp add: plaintext_check_def)

lemma matches_ByPk: "matches (ByPk n) = (\<lambda>r. pk r = n)"
  by (simp add: fun_eq_iff)

text \<open>A lookup by primary key in a table whose keys are distinct finds at most one row.\<close>

lemma filter_pk_unique:
  "distinct (map pk rs) \<Longrightarrow>
     filter (matches (ByPk n)) rs =
       (case find (matches (ByPk n)) rs of None \<Rightarrow> [] | Some r \<Rightarrow> [r])"
  unfolding matches_ByPk
proof (induction rs)
  case Nil
  then show ?case by simp
next
  case (Cons a rs)
  show ?case
  proof (cases "pk a = n")
    case True
    with Cons.prems have "filter (\<lambda>r. pk r = n) rs = []"
      by (auto simp: filter_empty_conv image_iff)
    with True show ?thesis by simp
  next
    case False
    with Cons show ?thesis by simp
  qed
qed

text \<open>The \<^verbatim>\<open>try\<close> block around \<^verbatim>\<open>return model.objects.get(pk=user_id)\<close>.\<close>

lemma try_get_some:
  "try_except (bind_io (objects_get d m lk) (\<lambda>u. return_io (Some u)))
     (\<lambda>e. e = DoesNotExist m) h =
     (case filter (matches lk) (d m) of
        [] \<Rightarrow> (fst h, Get m lk # snd h)
      | [r] \<Rightarrow> (Inr (Some (from_db m r)), [Get m lk])
      | _ \<Rightarrow> (Inl (MultipleObjectsReturned m), [Get m lk]))"
  by (simp add: try_except_def bind_io_def objects_get_def return_io_def
      split: list.splits prod.splits)

lemma session_model_tagged:
  assumes "current_request = Some req" and "session req = Some sess"
    and "sess ''_auth_user_model'' = Some label" and "USER_MODEL_MAP label = Some m"
  shows "session_model current_request = Some m"
  using assms by (auto simp: session_model_def USER_MODEL_MAP_def split: if_splits)

lemma session_model_untagged:
  assumes "\<And>req sess label. current_request = Some req \<Longrightarrow> session req = Some sess \<Longrightarrow>
     sess ''_auth_user_model'' = Some label \<Longrightarrow>
     label \<notin> {''student'', ''staff'', ''parent'', ''user''}"
  shows "session_model current_request = None"
  using assms
  by (auto simp: session_model_def USER_MODEL_MAP_def split: option.splits if_splits)

text \<open>
  The fallback loop over tables with distinct primary keys: the result is the row of the
  first model in the list whose table holds the id, and the queries are one \<^verbatim>\<open>get\<close>
  per model tried, up to and including that model.
\<close>

lemma get_user_loop_char:
  assumes "\<forall>m. distinct (map pk (d m))"
  shows "get_user_loop d n ms =
     (Inr (case filter (\<lambda>m. \<exists>r \<in> set (d m). pk r = n) ms of
             [] \<Rightarrow> None
           | m # _ \<Rightarrow> map_option (from_db m) (find (\<lambda>r. pk r = n) (d m))),
      map (\<lambda>m. Get m (ByPk n))
        (takeWhile (\<lambda>m. \<forall>r \<in> set (d m). pk r \<noteq> n) ms
           @ take 1 (dropWhile (\<lambda>m. \<forall>r \<in> set (d m). pk r \<noteq> n) ms)))"
proof (induction ms)
  case Nil
  show ?case by (simp add: return_io_def)
next
  case (Cons m ms)
  have uniq: "distinct (map pk (d m))" using assms by simp
  show ?case
  proof (cases "find (\<lambda>r. pk r = n) (d m)")
    case None
    then have miss: "\<forall>r \<in> set (d m). pk r \<noteq> n"
      by (simp add: find_None_iff)
    have "filter (matches (ByPk n)) (d m) = []"
      using filter_pk_unique [OF uniq, of n] None by (simp add: matches_ByPk)
    then show ?thesis
      using miss Cons.IH by (simp add: try_get_some)
  next
    case (Some r)
    then have hit: "\<exists>r \<in> set (d m). pk r = n"
      by (auto simp: find_Some_iff intro: nth_mem)
    have "filter (matches (ByPk n)) (d m) = [r]"
      using filter_pk_unique [OF uniq, of n] Some by (simp add: matches_ByPk)
    then show ?thesis
      using hit Some by (auto simp: try_get_some)
  qed
qed

text \<open>
  The lookup by label: one \<^verbatim>\<open>get\<close> on the model the session names, whose
  \<^verbatim>\<open>DoesNotExist\<close> becomes \<^verbatim>\<open>None\<close>.
\<close>

lemma get_user_tagged:
  assumes "session_model current_request = Some m" and "py_int raw = Inr n"
  shows "get_user py_int d current_request (Some raw) =
      ((case filter (\<lambda>r. pk r = n) (d m) of
          [] \<Rightarrow> Inr None
        | [r] \<Rightarrow> Inr (Some (from_db m r))
        | _ \<Rightarrow> Inl (MultipleObjectsReturned m)),
       [Get m (ByPk n)])"
  using assms
  by (simp add: get_user_def try_get_some)
    (simp add: return_io_def matches_ByPk split: list.splits)

lemma filter_first_find:
  "(case filter P xs of [] \<Rightarrow> None | r # _ \<Rightarrow> Some (f r)) = map_option f (find P xs)"
  by (induction xs) auto

text \<open>The six blocks of \<open>authenticate\<close>, each as the lookup it makes and what follows.\<close>

lemma admin_probe:
  "try_except
     (bind_io (objects_get d User (ByEmail u))
        (\<lambda>user. return_io (if chk user p then Some user else None)))
     (\<lambda>e. e = DoesNotExist User) (return_io None) =
   (case filter (matches (ByEmail u)) (d User) of
      [] \<Rightarrow> (Inr None, [Get User (ByEmail u)])
    | [r] \<Rightarrow> (Inr (if chk (from_db User r) p then Some (from_db User r) else None),
              [Get User (ByEmail u)])
    | _ \<Rightarrow> (Inl (MultipleObjectsReturned User), [Get User (ByEmail u)]))"
  by (simp add: try_except_def bind_io_def objects_get_def return_io_def split: list.splits)

lemma filter_probe:
  "bind_io (objects_filter_first d m lk)
     (\<lambda>x. if (case x of None \<Rightarrow> False | Some s \<Rightarrow> chk s p) then return_io x else k) =
   (case find (matches lk) (d m) of
      Some r \<Rightarrow>
        if chk (from_db m r) p then (Inr (Some (from_db m r)), [FilterFirst m lk])
        else (fst k, FilterFirst m lk # snd k)
    | None \<Rightarrow> (fst k, FilterFirst m lk # snd k))"
  by (simp add: bind_io_def objects_filter_first_def return_io_def filter_first_find
      split: option.splits prod.splits)

lemma find_single: "filter P xs = [r] \<Longrightarrow> find P xs = Some r"
  using filter_first_find [of "\<lambda>x. x" P xs] by (simp add: option.map_ident)

lemma find_none: "filter P xs = [] \<Longrightarrow> find P xs = None"
  by (simp add: find_None_iff filter_empty_conv)

lemma admin_bind:
  "bind_io
     (try_except
        (bind_io (objects_get d User (ByEmail u))
           (\<lambda>user. return_io (if chk user p then Some user else None)))
        (\<lambda>e. e = DoesNotExist User) (return_io None))
     (\<lambda>admin. if admin \<noteq> None then return_io admin else k) =
   (case filter (matches (ByEmail u)) (d User) of
      [] \<Rightarrow> (fst k, Get User (ByEmail u) # snd k)
    | [r] \<Rightarrow>
        if chk (from_db User r) p then (Inr (Some (from_db User r)), [Get User (ByEmail u)])
        else (fst k, Get User (ByEmail u) # snd k)
    | _ \<Rightarrow> (Inl (MultipleObjectsReturned User), [Get User (ByEmail u)]))"
  unfolding admin_probe
  by (simp add: bind_io_def return_io_def split: list.splits prod.splits)

text \<open>
  When at most one admin has the identifier as email, \<open>authenticate\<close> computes what
  \<open>run_probes\<close> describes: the same principal, and one store access per probe run.
\<close>

lemma authenticate_run_probes:
  assumes "length (filter (matches (ByEmail u)) (d User)) \<le> 1"
  shows "authenticate chk d (Some u) (Some p) =
    (Inr (fst (run_probes chk d u p PROBES)),
     map (\<lambda>(m, lk). if m = User then Get m lk else FilterFirst m lk)
       (snd (run_probes chk d u p PROBES)))"
proof -
  consider (none) "filter (matches (ByEmail u)) (d User) = []"
    | (one) r where "filter (matches (ByEmail u)) (d User) = [r]"
    using assms by (cases "filter (matches (ByEmail u)) (d User)") (auto simp: Suc_le_eq split: list.splits)
  then show ?thesis
  proof cases
    case none
    then show ?thesis
      unfolding authenticate_def option.case filter_probe admin_bind
      by (simp add: PROBES_def find_none return_io_def split: option.splits prod.splits)
  next
    case one
    then show ?thesis
      unfolding authenticate_def option.case filter_probe admin_bind
      by (simp add: PROBES_def find_single return_io_def split: option.splits prod.splits)
  qed
qed


lemma run_probes_prefix:
  "\<exists>k \<le> length ps. snd (run_probes chk d u p ps) = take k (map (\<lambda>(m, field). (m, field u)) ps)"
proof (induction ps)
  case Nil
  show ?case by simp
next
  case (Cons a ps)
  obtain m field where a: "a = (m, field)" by (cases a)
  from Cons obtain k where k: "k \<le> length ps"
    "snd (run_probes chk d u p ps) = take k (map (\<lambda>(m, field). (m, field u)) ps)"
    by blast
  have "snd (run_probes chk d u p (a # ps)) = take (Suc 0) (map (\<lambda>(m, field). (m, field u)) (a # ps))
      \<or> snd (run_probes chk d u p (a # ps)) = take (Suc k) (map (\<lambda>(m, field). (m, field u)) (a # ps))"
    using k(2) by (auto simp: a split: option.splits prod.splits)
  with k(1) show ?case
    by (metis Suc_le_mono le0 length_Cons)
qed

lemma run_probes_exhausted:
  "fst (run_probes chk d u p ps) = None \<Longrightarrow>
     snd (run_probes chk d u p ps) = map (\<lambda>(m, field). (m, field u)) ps"
  by (induction ps) (auto split: option.splits prod.splits if_splits)

lemma run_probes_verified:
  "fst (run_probes chk d u p ps) = Some x \<Longrightarrow> chk x p"
  by (induction ps) (auto split: option.splits prod.splits if_splits)


lemma authenticate_duplicate_admin:
  assumes "2 \<le> length (filter (matches (ByEmail u)) (d User))"
  shows "authenticate chk d (Some u) (Some p) =
    (Inl (MultipleObjectsReturned User), [Get User (ByEmail u)])"
proof -
  from assms obtain r r' rs where "filter (matches (ByEmail u)) (d User) = r # r' # rs"
    by (auto simp: numeral_2_eq_2 Suc_le_length_iff)
  then show ?thesis
    unfolding authenticate_def option.case admin_bind by simp
qed

text \<open>The loop over the groups adds every group's permission strings to the set.\<close>

lemma update_perms_union:
  "update_perms gs perms groups =
     perms \<union> (\<Union>g \<in> set groups. perm_string ` set (group_permissions gs g))"
  by (induction groups arbitrary: perms) auto

section \<open>Properties of get_user\<close>

text \<open>
  C6, as the specification states it, fails: \<open>get_user\<close> catches \<^verbatim>\<open>TypeError\<close> and
  \<^verbatim>\<open>ValueError\<close> only. The float infinity does not parse as an integer, but
  \<^verbatim>\<open>int(float("inf"))\<close> raises \<^verbatim>\<open>OverflowError\<close>, which escapes: the outcome is that
  exception and not \<^verbatim>\<open>None\<close>.
\<close>

theorem get_user_overflow_counterexample:
  "get_user int_of_raw_id
     (tables
        [\<lparr>pk = 42, email = None, phone = None, hashed_password = ''h'', is_active = True\<rparr>]
        [\<lparr>pk = 42, email = None, phone = None, hashed_password = ''h'', is_active = True\<rparr>]
        [\<lparr>pk = 42, email = None, phone = None, hashed_password = ''h'', is_active = True\<rparr>]
        [\<lparr>pk = 42, email = None, phone = None, hashed_password = ''h'', is_active = True\<rparr>])
     (Some \<lparr>session = Some [''_auth_user_model'' \<mapsto> ''student'']\<rparr>)
     (Some PyFloatInf) = (Inl OverflowError, [])"
  by (simp add: get_user_def raise_io_def)

text \<open>
  C6, amended. A raw id that is \<^verbatim>\<open>None\<close>, or on which \<^verbatim>\<open>int(...)\<close> raises
  \<^verbatim>\<open>TypeError\<close> or \<^verbatim>\<open>ValueError\<close>, resolves to \<^verbatim>\<open>None\<close>, and no store is accessed:
  the list of queries is empty, whatever the stores and the session hold.
\<close>

theorem get_user_unparsable:
  assumes "user_id = None \<or>
    (\<exists>raw. user_id = Some raw \<and> py_int raw \<in> {Inl TypeError, Inl ValueError})"
  shows "get_user py_int d current_request user_id = (Inr None, [])"
  using assms by (auto simp: get_user_def return_io_def)

text \<open>
  The two inputs of the specification's example, \<^verbatim>\<open>None\<close> and \<^verbatim>\<open>"not-a-number"\<close>,
  with an \<^verbatim>\<open>int\<close> that accepts the string \<^verbatim>\<open>"42"\<close> only, a store that holds a row
  in every table and a session tagged \<^verbatim>\<open>"student"\<close>.
\<close>

theorem get_user_unparsable_witness:
  "get_user (\<lambda>s. if s = ''42'' then Inr 42 else Inl ValueError)
     (tables
        [\<lparr>pk = 42, email = None, phone = None, hashed_password = ''h'', is_active = True\<rparr>]
        [\<lparr>pk = 42, email = None, phone = None, hashed_password = ''h'', is_active = True\<rparr>]
        [\<lparr>pk = 42, email = None, phone = None, hashed_password = ''h'', is_active = True\<rparr>]
        [\<lparr>pk = 42, email = None, phone = None, hashed_password = ''h'', is_active = True\<rparr>])
     (Some \<lparr>session = Some [''_auth_user_model'' \<mapsto> ''student'']\<rparr>)
     (Some ''not-a-number'') = (Inr None, [])
   \<and> get_user (\<lambda>s. if s = ''42'' then Inr 42 else Inl ValueError)
     (tables
        [\<lparr>pk = 42, email = None, phone = None, hashed_password = ''h'', is_active = True\<rparr>]
        [\<lparr>pk = 42, email = None, phone = None, hashed_password = ''h'', is_active = True\<rparr>]
        [\<lparr>pk = 42, email = None, phone = None, hashed_password = ''h'', is_active = True\<rparr>]
        [\<lparr>pk = 42, email = None, phone = None, hashed_password = ''h'', is_active = True\<rparr>])
     (Some \<lparr>session = Some [''_auth_user_model'' \<mapsto> ''student'']\<rparr>)
     (None :: string option) = (Inr None, [])"
  using get_user_unparsable
      [of "Some ''not-a-number''" "\<lambda>s. if s = ''42'' then Inr 42 else Inl ValueError"]
    get_user_unparsable [of "None :: string option"]
  by simp

text \<open>
  C2. When the session carries a label that is a key of \<^verbatim>\<open>_USER_MODEL_MAP\<close> and the
  table of the model it names holds no row with the given id, \<open>get_user\<close> returns
  \<^verbatim>\<open>None\<close> after that single lookup: the only store access is the \<^verbatim>\<open>get\<close> on the
  named model, so no other table is tried, whatever it holds.
\<close>

theorem get_user_tag_no_fallback:
  assumes "current_request = Some req" and "session req = Some sess"
    and "sess ''_auth_user_model'' = Some label" and "USER_MODEL_MAP label = Some m"
    and "py_int raw = Inr n"
    and "\<forall>r \<in> set (d m). pk r \<noteq> n"
  shows "get_user py_int d current_request (Some raw) = (Inr None, [Get m (ByPk n)])"
proof -
  have "filter (matches (ByPk n)) (d m) = []"
    using assms(6) by (simp add: filter_empty_conv)
  then show ?thesis
    using session_model_tagged [OF assms(1-4)] assms(5)
    by (simp add: get_user_def try_get_some) (simp add: return_io_def)
qed

text \<open>
  The specification's example: the session is tagged \<^verbatim>\<open>"student"\<close> and the id 7 exists in
  the Staff table only.
\<close>

theorem get_user_tag_no_fallback_witness:
  "get_user Inr
     (tables
        []
        [\<lparr>pk = 7, email = None, phone = Some ''555'', hashed_password = ''h'', is_active = True\<rparr>]
        []
        [])
     (Some \<lparr>session = Some [''_auth_user_model'' \<mapsto> ''student'']\<rparr>)
     (Some 7) = (Inr None, [Get Student (ByPk 7)])"
  using get_user_tag_no_fallback
      [of "Some \<lparr>session = Some [''_auth_user_model'' \<mapsto> ''student'']\<rparr>"
        "\<lparr>session = Some [''_auth_user_model'' \<mapsto> ''student'']\<rparr>"
        "[''_auth_user_model'' \<mapsto> ''student'']"
        "''student''" Student "Inr :: int \<Rightarrow> exn + int" 7 7
        "tables
        []
        [\<lparr>pk = 7, email = None, phone = Some ''555'', hashed_password = ''h'', is_active = True\<rparr>]
        []
        []"]
  by (simp add: USER_MODEL_MAP_def)

text \<open>
  C5. When there is no current request, the request has no session, the session has no
  \<^verbatim>\<open>_auth_user_model\<close> entry, or the entry is none of the four keys of
  \<^verbatim>\<open>_USER_MODEL_MAP\<close>, \<open>get_user\<close> tries the models in the order Student, Parent,
  Staff, User and returns the row of the first model whose table holds the id (\<^verbatim>\<open>None\<close>
  when none does). The queries are one \<^verbatim>\<open>get\<close> per model, in that order, ending with the
  model that held the id. Primary keys are distinct inside each table.
\<close>

theorem get_user_fallback_order:
  assumes "\<forall>req sess label. current_request = Some req \<longrightarrow> session req = Some sess \<longrightarrow>
      sess ''_auth_user_model'' = Some label \<longrightarrow>
      label \<notin> {''student'', ''staff'', ''parent'', ''user''}"
    and "py_int raw = Inr n"
    and "\<forall>m. distinct (map pk (d m))"
  shows "get_user py_int d current_request (Some raw) =
     (Inr (case filter (\<lambda>m. \<exists>r \<in> set (d m). pk r = n) [Student, Parent, Staff, User] of
             [] \<Rightarrow> None
           | m # _ \<Rightarrow> map_option (from_db m) (find (\<lambda>r. pk r = n) (d m))),
      map (\<lambda>m. Get m (ByPk n))
        (takeWhile (\<lambda>m. \<forall>r \<in> set (d m). pk r \<noteq> n) [Student, Parent, Staff, User]
           @ take 1 (dropWhile (\<lambda>m. \<forall>r \<in> set (d m). pk r \<noteq> n) [Student, Parent, Staff, User])))"
proof -
  have "session_model current_request = None"
    using assms(1) by (intro session_model_untagged) blast
  then have "get_user py_int d current_request (Some raw) = get_user_loop d n GET_USER_ORDER"
    using assms(2) by (simp add: get_user_def)
  then show ?thesis
    unfolding get_user_loop_char [OF assms(3)] GET_USER_ORDER_def .
qed

text \<open>
  The specification's example: without a request, an id held by a Student and by an admin
  resolves to the Student after a single query. With the unrecognized label
  \<^verbatim>\<open>"teacher"\<close>, an id held by a Staff member and by an admin resolves to the Staff
  member after the Student and the Parent table were tried.
\<close>

theorem get_user_fallback_order_witness:
  "get_user Inr
     (tables
        [\<lparr>pk = 1, email = Some ''root@x.org'', phone = None, hashed_password = ''a'', is_active = True\<rparr>]
        []
        []
        [\<lparr>pk = 1, email = None, phone = Some ''555'', hashed_password = ''s'', is_active = True\<rparr>])
     None (Some 1) =
     (Inr (Some (from_db Student
        \<lparr>pk = 1, email = None, phone = Some ''555'', hashed_password = ''s'', is_active = True\<rparr>)),
      [Get Student (ByPk 1)])
   \<and> get_user Inr
     (tables
        [\<lparr>pk = 1, email = Some ''root@x.org'', phone = None, hashed_password = ''a'', is_active = True\<rparr>]
        [\<lparr>pk = 1, email = None, phone = Some ''555'', hashed_password = ''s'', is_active = True\<rparr>]
        []
        [])
     (Some \<lparr>session = Some [''_auth_user_model'' \<mapsto> ''teacher'']\<rparr>) (Some 1) =
     (Inr (Some (from_db Staff
        \<lparr>pk = 1, email = None, phone = Some ''555'', hashed_password = ''s'', is_active = True\<rparr>)),
      [Get Student (ByPk 1), Get Parent (ByPk 1), Get Staff (ByPk 1)])"
  using get_user_fallback_order [of None "Inr :: int \<Rightarrow> exn + int" 1 1
      "tables
        [\<lparr>pk = 1, email = Some ''root@x.org'', phone = None, hashed_password = ''a'', is_active = True\<rparr>]
        []
        []
        [\<lparr>pk = 1, email = None, phone = Some ''555'', hashed_password = ''s'', is_active = True\<rparr>]"]
    get_user_fallback_order [of "Some \<lparr>session = Some [''_auth_user_model'' \<mapsto> ''teacher'']\<rparr>" "Inr :: int \<Rightarrow> exn + int" 1 1
      "tables
        [\<lparr>pk = 1, email = Some ''root@x.org'', phone = None, hashed_password = ''a'', is_active = True\<rparr>]
        [\<lparr>pk = 1, email = None, phone = Some ''555'', hashed_password = ''s'', is_active = True\<rparr>]
        []
        []"]
  by (simp add: all_model)

text \<open>
  C1, as the specification states it, fails: the label \<^verbatim>\<open>"admin"\<close> is not a key of
  \<^verbatim>\<open>_USER_MODEL_MAP\<close>, so a session labelled \<^verbatim>\<open>"admin"\<close> is treated like a session
  without a label. With the id 1 held by a Student and by an admin, \<open>get_user\<close> returns the
  Student, and the only table it reads is the Student table.
\<close>

theorem get_user_admin_label_counterexample:
  "get_user Inr
     (tables
        [\<lparr>pk = 1, email = Some ''root@x.org'', phone = None, hashed_password = ''a'', is_active = True\<rparr>]
        []
        []
        [\<lparr>pk = 1, email = None, phone = Some ''555'', hashed_password = ''s'', is_active = True\<rparr>])
     (Some \<lparr>session = Some [''_auth_user_model'' \<mapsto> ''admin'']\<rparr>) (Some 1) =
     (Inr (Some (from_db Student
        \<lparr>pk = 1, email = None, phone = Some ''555'', hashed_password = ''s'', is_active = True\<rparr>)),
      [Get Student (ByPk 1)])"
  by (simp add: get_user_def session_model_def USER_MODEL_MAP_def GET_USER_ORDER_def
      try_get_some)

text \<open>
  C1, amended. The keys of \<^verbatim>\<open>_USER_MODEL_MAP\<close> are \<^verbatim>\<open>"user"\<close>, \<^verbatim>\<open>"staff"\<close>,
  \<^verbatim>\<open>"parent"\<close> and \<^verbatim>\<open>"student"\<close>, and the label of the administrators' model
  \<^verbatim>\<open>User\<close> is \<^verbatim>\<open>"user"\<close>. For a session with that label and every id, \<open>get_user\<close>
  makes exactly one store access, a \<^verbatim>\<open>get\<close> by primary key on the \<^verbatim>\<open>User\<close> table, and
  returns the row with that id if the table holds one and \<^verbatim>\<open>None\<close> otherwise. Primary
  keys are distinct inside the \<^verbatim>\<open>User\<close> table.
\<close>

theorem get_user_user_label_admin_store:
  assumes "current_request = Some req" and "session req = Some sess"
    and "sess ''_auth_user_model'' = Some ''user''"
    and "py_int raw = Inr n"
    and "distinct (map pk (d User))"
  shows "dom USER_MODEL_MAP = {''user'', ''staff'', ''parent'', ''student''}
    \<and> USER_MODEL_MAP ''user'' = Some User
    \<and> get_user py_int d current_request (Some raw) =
        (Inr (map_option (from_db User) (find (\<lambda>r. pk r = n) (d User))), [Get User (ByPk n)])"
proof -
  have tag: "USER_MODEL_MAP ''user'' = Some User"
    by (simp add: USER_MODEL_MAP_def)
  have keys: "dom USER_MODEL_MAP = {''user'', ''staff'', ''parent'', ''student''}"
    by (auto simp: USER_MODEL_MAP_def)
  have "get_user py_int d current_request (Some raw) =
      (Inr (map_option (from_db User) (find (\<lambda>r. pk r = n) (d User))), [Get User (ByPk n)])"
    using filter_pk_unique [OF assms(5), of n]
    by (cases "find (\<lambda>r. pk r = n) (d User)")
      (simp_all add: get_user_tagged [where py_int = py_int and raw = raw,
            OF session_model_tagged [OF assms(1-3) tag] assms(4)]
        matches_ByPk)
  with tag keys show ?thesis by simp
qed

text \<open>
  The stores of the counterexample, with the label \<^verbatim>\<open>"user"\<close>: the admin is returned
  although a Student has the same id.
\<close>

theorem get_user_user_label_admin_store_witness:
  "get_user Inr
     (tables
        [\<lparr>pk = 1, email = Some ''root@x.org'', phone = None, hashed_password = ''a'', is_active = True\<rparr>]
        []
        []
        [\<lparr>pk = 1, email = None, phone = Some ''555'', hashed_password = ''s'', is_active = True\<rparr>])
     (Some \<lparr>session = Some [''_auth_user_model'' \<mapsto> ''user'']\<rparr>) (Some 1) =
     (Inr (Some (from_db User
        \<lparr>pk = 1, email = Some ''root@x.org'', phone = None, hashed_password = ''a'', is_active = True\<rparr>)),
      [Get User (ByPk 1)])"
  using get_user_user_label_admin_store
      [of "Some \<lparr>session = Some [''_auth_user_model'' \<mapsto> ''user'']\<rparr>"
        "\<lparr>session = Some [''_auth_user_model'' \<mapsto> ''user'']\<rparr>"
        "[''_auth_user_model'' \<mapsto> ''user'']" "Inr :: int \<Rightarrow> exn + int" 1 1
     "tables
        [\<lparr>pk = 1, email = Some ''root@x.org'', phone = None, hashed_password = ''a'', is_active = True\<rparr>]
        []
        []
        [\<lparr>pk = 1, email = None, phone = Some ''555'', hashed_password = ''s'', is_active = True\<rparr>]"]
  by simp

text \<open>
  C9. The label \<^verbatim>\<open>"user"\<close> denotes the model \<^verbatim>\<open>User\<close>: with it, the one store access
  of \<open>get_user\<close> is the \<^verbatim>\<open>get\<close> on the \<^verbatim>\<open>User\<close> table, the result is that table's
  row with the given id or \<^verbatim>\<open>None\<close> if it has none (were the table to hold the id more
  than once, \<^verbatim>\<open>MultipleObjectsReturned\<close> would escape), and the outcome is the same for
  any two states of the stores that agree on the \<^verbatim>\<open>User\<close> table: the tables of the other
  models are not consulted.
\<close>

theorem get_user_user_label_only_user_table:
  assumes "current_request = Some req" and "session req = Some sess"
    and "sess ''_auth_user_model'' = Some ''user''"
    and "py_int raw = Inr n"
  shows "get_user py_int d current_request (Some raw) =
      ((case filter (\<lambda>r. pk r = n) (d User) of
          [] \<Rightarrow> Inr None
        | [r] \<Rightarrow> Inr (Some (from_db User r))
        | _ \<Rightarrow> Inl (MultipleObjectsReturned User)),
       [Get User (ByPk n)])
    \<and> (\<forall>d'. d' User = d User \<longrightarrow>
          get_user py_int d' current_request (Some raw) =
          get_user py_int d current_request (Some raw))"
proof -
  have tag: "USER_MODEL_MAP ''user'' = Some User"
    by (simp add: USER_MODEL_MAP_def)
  have run: "get_user py_int e current_request (Some raw) =
      ((case filter (\<lambda>r. pk r = n) (e User) of
          [] \<Rightarrow> Inr None
        | [r] \<Rightarrow> Inr (Some (from_db User r))
        | _ \<Rightarrow> Inl (MultipleObjectsReturned User)),
       [Get User (ByPk n)])" for e
    by (rule get_user_tagged [where py_int = py_int and raw = raw,
          OF session_model_tagged [OF assms(1-3) tag] assms(4)])
  show ?thesis
    by (simp add: run)
qed

text \<open>
  With the label \<^verbatim>\<open>"user"\<close>, the id 3 held by an admin and by a Student resolves to the
  admin, and the id 4, which no admin has, resolves to \<^verbatim>\<open>None\<close>.
\<close>

theorem get_user_user_label_only_user_table_witness:
  "get_user Inr
     (tables
        [\<lparr>pk = 3, email = Some ''root@x.org'', phone = None, hashed_password = ''a'', is_active = True\<rparr>]
        []
        []
        [\<lparr>pk = 3, email = None, phone = Some ''555'', hashed_password = ''s'', is_active = True\<rparr>])
     (Some \<lparr>session = Some [''_auth_user_model'' \<mapsto> ''user'']\<rparr>) (Some 3) =
     (Inr (Some (from_db User
        \<lparr>pk = 3, email = Some ''root@x.org'', phone = None, hashed_password = ''a'', is_active = True\<rparr>)),
      [Get User (ByPk 3)])
   \<and> get_user Inr
     (tables
        [\<lparr>pk = 3, email = Some ''root@x.org'', phone = None, hashed_password = ''a'', is_active = True\<rparr>]
        []
        []
        [\<lparr>pk = 3, email = None, phone = Some ''555'', hashed_password = ''s'', is_active = True\<rparr>])
     (Some \<lparr>session = Some [''_auth_user_model'' \<mapsto> ''user'']\<rparr>) (Some 4) =
     (Inr None, [Get User (ByPk 4)])"
  using get_user_user_label_only_user_table
      [of "Some \<lparr>session = Some [''_auth_user_model'' \<mapsto> ''user'']\<rparr>"
        "\<lparr>session = Some [''_auth_user_model'' \<mapsto> ''user'']\<rparr>"
        "[''_auth_user_model'' \<mapsto> ''user'']" "Inr :: int \<Rightarrow> exn + int" 3 3
     "tables
        [\<lparr>pk = 3, email = Some ''root@x.org'', phone = None, hashed_password = ''a'', is_active = True\<rparr>]
        []
        []
        [\<lparr>pk = 3, email = None, phone = Some ''555'', hashed_password = ''s'', is_active = True\<rparr>]"]
    get_user_user_label_only_user_table
      [of "Some \<lparr>session = Some [''_auth_user_model'' \<mapsto> ''user'']\<rparr>"
        "\<lparr>session = Some [''_auth_user_model'' \<mapsto> ''user'']\<rparr>"
        "[''_auth_user_model'' \<mapsto> ''user'']" "Inr :: int \<Rightarrow> exn + int" 4 4
     "tables
        [\<lparr>pk = 3, email = Some ''root@x.org'', phone = None, hashed_password = ''a'', is_active = True\<rparr>]
        []
        []
        [\<lparr>pk = 3, email = None, phone = Some ''555'', hashed_password = ''s'', is_active = True\<rparr>]"]
  by simp

section \<open>Properties of authenticate\<close>

text \<open>
  C3, as the specification states it, fails in three ways, each on a store in which a Staff
  member and a Parent have the phone \<^verbatim>\<open>"555"\<close> and the secret \<^verbatim>\<open>"pw"\<close>. When two
  admins have \<^verbatim>\<open>"555"\<close> as email, the first probe neither passes on nor returns a
  principal: \<^verbatim>\<open>MultipleObjectsReturned\<close> escapes after one store access. When one admin
  has \<^verbatim>\<open>"555"\<close> as email and the same secret, the admin is returned, not the Staff member.
  When an earlier Staff row with that phone has another secret, the second probe reads that
  row only, and the Parent is returned.
\<close>

theorem authenticate_staff_parent_counterexample:
  "authenticate plaintext_check
     (tables
        [\<lparr>pk = 1, email = Some ''555'', phone = None, hashed_password = ''pw'', is_active = True\<rparr>,
         \<lparr>pk = 2, email = Some ''555'', phone = None, hashed_password = ''pw'', is_active = True\<rparr>]
        [\<lparr>pk = 1, email = None, phone = Some ''555'', hashed_password = ''pw'', is_active = True\<rparr>]
        [\<lparr>pk = 2, email = None, phone = Some ''555'', hashed_password = ''pw'', is_active = True\<rparr>]
        [])
     (Some ''555'') (Some ''pw'') =
     (Inl (MultipleObjectsReturned User), [Get User (ByEmail ''555'')])
   \<and> authenticate plaintext_check
     (tables
        [\<lparr>pk = 1, email = Some ''555'', phone = None, hashed_password = ''pw'', is_active = True\<rparr>]
        [\<lparr>pk = 1, email = None, phone = Some ''555'', hashed_password = ''pw'', is_active = True\<rparr>]
        [\<lparr>pk = 2, email = None, phone = Some ''555'', hashed_password = ''pw'', is_active = True\<rparr>]
        [])
     (Some ''555'') (Some ''pw'') =
     (Inr (Some (from_db User
        \<lparr>pk = 1, email = Some ''555'', phone = None, hashed_password = ''pw'', is_active = True\<rparr>)),
      [Get User (ByEmail ''555'')])
   \<and> authenticate plaintext_check
     (tables
        []
        [\<lparr>pk = 1, email = None, phone = Some ''555'', hashed_password = ''other'', is_active = True\<rparr>,
         \<lparr>pk = 3, email = None, phone = Some ''555'', hashed_password = ''pw'', is_active = True\<rparr>]
        [\<lparr>pk = 2, email = None, phone = Some ''555'', hashed_password = ''pw'', is_active = True\<rparr>]
        [])
     (Some ''555'') (Some ''pw'') =
     (Inr (Some (from_db Parent
        \<lparr>pk = 2, email = None, phone = Some ''555'', hashed_password = ''pw'', is_active = True\<rparr>)),
      [Get User (ByEmail ''555''), FilterFirst Staff (ByPhone ''555''),
       FilterFirst Staff (ByEmail ''555''), FilterFirst Parent (ByPhone ''555'')])"
proof -
  let ?staff = "\<lparr>pk = 1, email = None, phone = Some ''555'', hashed_password = ''pw'', is_active = True\<rparr>"
  let ?parent = "\<lparr>pk = 2, email = None, phone = Some ''555'', hashed_password = ''pw'', is_active = True\<rparr>"
  let ?admin = "\<lparr>pk = 1, email = Some ''555'', phone = None, hashed_password = ''pw'', is_active = True\<rparr>"
  let ?d1 = "tables
        [?admin,
         \<lparr>pk = 2, email = Some ''555'', phone = None, hashed_password = ''pw'', is_active = True\<rparr>]
        [?staff] [?parent] []"
  let ?d2 = "tables [?admin] [?staff] [?parent] []"
  let ?d3 = "tables
        []
        [\<lparr>pk = 1, email = None, phone = Some ''555'', hashed_password = ''other'', is_active = True\<rparr>,
         \<lparr>pk = 3, email = None, phone = Some ''555'', hashed_password = ''pw'', is_active = True\<rparr>]
        [?parent] []"
  have a: "authenticate plaintext_check ?d1 (Some ''555'') (Some ''pw'') =
     (Inl (MultipleObjectsReturned User), [Get User (ByEmail ''555'')])"
    by (rule authenticate_duplicate_admin) simp
  have "length (filter (matches (ByEmail ''555'')) (?d2 User)) \<le> 1"
    by simp
  from authenticate_run_probes
    [where d = ?d2 and u = "''555''" and chk = plaintext_check and p = "''pw''", OF this]
  have b: "authenticate plaintext_check ?d2 (Some ''555'') (Some ''pw'') =
     (Inr (Some (from_db User ?admin)), [Get User (ByEmail ''555'')])"
    by (simp add: PROBES_def from_db_def)
  have "length (filter (matches (ByEmail ''555'')) (?d3 User)) \<le> 1"
    by simp
  from authenticate_run_probes
    [where d = ?d3 and u = "''555''" and chk = plaintext_check and p = "''pw''", OF this]
  have c: "authenticate plaintext_check ?d3 (Some ''555'') (Some ''pw'') =
     (Inr (Some (from_db Parent ?parent)),
      [Get User (ByEmail ''555''), FilterFirst Staff (ByPhone ''555''),
       FilterFirst Staff (ByEmail ''555''), FilterFirst Parent (ByPhone ''555'')])"
    by (simp add: PROBES_def from_db_def)
  from a b c show ?thesis by blast
qed

text \<open>
  C3, amended. With both arguments given and at most one admin whose email is the
  identifier, \<open>authenticate\<close> returns what the six probes (Admin, email), (Staff, phone),
  (Staff, email), (Parent, phone), (Student, phone), (Student, email) return when they are
  run in this order as \<open>run_probes\<close> words it: a probe looks at the first record that
  matches; when there is none, or its secret does not verify, the probe passes on to the
  next; the first probe whose record verifies ends the search with that principal. The
  store accesses of \<open>authenticate\<close> are the probes run, which are an initial part of the
  six; when the result is \<^verbatim>\<open>None\<close>, all six were run; a returned principal passed the
  secret check. In particular, when no admin with the identifier as email verifies and the
  first Staff row with that phone verifies, that Staff member is returned after two store
  accesses, whatever the Parent table holds.
\<close>

theorem authenticate_six_probes:
  assumes "length (filter (matches (ByEmail u)) (d User)) \<le> 1"
  shows "fst (authenticate chk d (Some u) (Some p)) = Inr (fst (run_probes chk d u p PROBES))
    \<and> map query_target (snd (authenticate chk d (Some u) (Some p))) =
        map Some (snd (run_probes chk d u p PROBES))
    \<and> (\<exists>k \<le> 6. snd (run_probes chk d u p PROBES) =
          take k [(User, ByEmail u), (Staff, ByPhone u), (Staff, ByEmail u),
                  (Parent, ByPhone u), (Student, ByPhone u), (Student, ByEmail u)])
    \<and> (fst (run_probes chk d u p PROBES) = None \<longrightarrow>
          snd (run_probes chk d u p PROBES) =
            [(User, ByEmail u), (Staff, ByPhone u), (Staff, ByEmail u),
             (Parent, ByPhone u), (Student, ByPhone u), (Student, ByEmail u)])
    \<and> (\<forall>x. fst (run_probes chk d u p PROBES) = Some x \<longrightarrow> chk x p)
    \<and> (\<forall>s. (\<forall>r \<in> set (d User). email r = Some u \<longrightarrow> \<not> chk (from_db User r) p) \<longrightarrow>
          find (matches (ByPhone u)) (d Staff) = Some s \<longrightarrow> chk (from_db Staff s) p \<longrightarrow>
          authenticate chk d (Some u) (Some p) =
            (Inr (Some (from_db Staff s)), [Get User (ByEmail u), FilterFirst Staff (ByPhone u)]))"
proof -
  note run = authenticate_run_probes [where d = d and u = u and chk = chk and p = p, OF assms]
  have res: "fst (authenticate chk d (Some u) (Some p)) = Inr (fst (run_probes chk d u p PROBES))"
    by (simp add: run)
  have "query_target \<circ> (\<lambda>(m, lk). if m = User then Get m lk else FilterFirst m lk) = Some"
    by (auto simp: fun_eq_iff)
  then have log: "map query_target (snd (authenticate chk d (Some u) (Some p))) =
        map Some (snd (run_probes chk d u p PROBES))"
    by (simp add: run)
  have six: "map (\<lambda>(m, field). (m, field u)) PROBES =
      [(User, ByEmail u), (Staff, ByPhone u), (Staff, ByEmail u),
       (Parent, ByPhone u), (Student, ByPhone u), (Student, ByEmail u)]"
    and len: "length PROBES = 6"
    by (simp_all add: PROBES_def)
  have pre: "\<exists>k \<le> 6. snd (run_probes chk d u p PROBES) =
          take k [(User, ByEmail u), (Staff, ByPhone u), (Staff, ByEmail u),
                  (Parent, ByPhone u), (Student, ByPhone u), (Student, ByEmail u)]"
    using run_probes_prefix [of PROBES chk d u p] unfolding six len .
  have all: "fst (run_probes chk d u p PROBES) = None \<longrightarrow>
          snd (run_probes chk d u p PROBES) =
            [(User, ByEmail u), (Staff, ByPhone u), (Staff, ByEmail u),
             (Parent, ByPhone u), (Student, ByPhone u), (Student, ByEmail u)]"
    using run_probes_exhausted [of chk d u p PROBES] unfolding six by blast
  have ver: "\<forall>x. fst (run_probes chk d u p PROBES) = Some x \<longrightarrow> chk x p"
    using run_probes_verified [of chk d u p PROBES] by blast
  have staff: "\<forall>s. (\<forall>r \<in> set (d User). email r = Some u \<longrightarrow> \<not> chk (from_db User r) p) \<longrightarrow>
          find (matches (ByPhone u)) (d Staff) = Some s \<longrightarrow> chk (from_db Staff s) p \<longrightarrow>
          authenticate chk d (Some u) (Some p) =
            (Inr (Some (from_db Staff s)), [Get User (ByEmail u), FilterFirst Staff (ByPhone u)])"
  proof (intro allI impI)
    fix s
    assume nv: "\<forall>r \<in> set (d User). email r = Some u \<longrightarrow> \<not> chk (from_db User r) p"
      and first: "find (matches (ByPhone u)) (d Staff) = Some s"
      and ok: "chk (from_db Staff s) p"
    have "\<not> chk (from_db User r) p" if "find (matches (ByEmail u)) (d User) = Some r" for r
    proof -
      from that have "r \<in> set (d User)" and "email r = Some u"
        by (auto simp: find_Some_iff)
      with nv show ?thesis by blast
    qed
    then show "authenticate chk d (Some u) (Some p) =
        (Inr (Some (from_db Staff s)), [Get User (ByEmail u), FilterFirst Staff (ByPhone u)])"
      using first ok by (simp add: run PROBES_def split: option.splits)
  qed
  from res log pre all ver staff show ?thesis by blast
qed

text \<open>
  A Staff member and a Parent share the phone \<^verbatim>\<open>"555"\<close> and the secret, and an admin
  has \<^verbatim>\<open>"555"\<close> as email but another secret: the Staff member is returned and the Parent
  table is not read. When the Staff member's secret differs, the search goes on and the
  fourth probe returns the Parent.
\<close>

theorem authenticate_six_probes_witness:
  "authenticate plaintext_check
     (tables
        [\<lparr>pk = 1, email = Some ''555'', phone = None, hashed_password = ''root'', is_active = True\<rparr>]
        [\<lparr>pk = 1, email = None, phone = Some ''555'', hashed_password = ''pw'', is_active = True\<rparr>]
        [\<lparr>pk = 2, email = None, phone = Some ''555'', hashed_password = ''pw'', is_active = True\<rparr>]
        [])
     (Some ''555'') (Some ''pw'') =
     (Inr (Some (from_db Staff
        \<lparr>pk = 1, email = None, phone = Some ''555'', hashed_password = ''pw'', is_active = True\<rparr>)),
      [Get User (ByEmail ''555''), FilterFirst Staff (ByPhone ''555'')])
   \<and> fst (authenticate plaintext_check
     (tables
        [\<lparr>pk = 1, email = Some ''root@x.org'', phone = None, hashed_password = ''pw'', is_active = True\<rparr>]
        [\<lparr>pk = 1, email = None, phone = Some ''555'', hashed_password = ''other'', is_active = True\<rparr>]
        [\<lparr>pk = 2, email = None, phone = Some ''555'', hashed_password = ''pw'', is_active = True\<rparr>]
        [])
     (Some ''555'') (Some ''pw'')) =
     Inr (Some (from_db Parent
        \<lparr>pk = 2, email = None, phone = Some ''555'', hashed_password = ''pw'', is_active = True\<rparr>))
   \<and> map query_target (snd (authenticate plaintext_check
     (tables
        [\<lparr>pk = 1, email = Some ''root@x.org'', phone = None, hashed_password = ''pw'', is_active = True\<rparr>]
        [\<lparr>pk = 1, email = None, phone = Some ''555'', hashed_password = ''other'', is_active = True\<rparr>]
        [\<lparr>pk = 2, email = None, phone = Some ''555'', hashed_password = ''pw'', is_active = True\<rparr>]
        [])
     (Some ''555'') (Some ''pw''))) =
     [Some (User, ByEmail ''555''), Some (Staff, ByPhone ''555''), Some (Staff, ByEmail ''555''),
      Some (Parent, ByPhone ''555'')]"
proof -
  let ?chk = plaintext_check
  let ?s = "\<lparr>pk = 1, email = None, phone = Some ''555'', hashed_password = ''pw'', is_active = True\<rparr>"
  let ?d1 = "tables
        [\<lparr>pk = 1, email = Some ''555'', phone = None, hashed_password = ''root'', is_active = True\<rparr>]
        [?s]
        [\<lparr>pk = 2, email = None, phone = Some ''555'', hashed_password = ''pw'', is_active = True\<rparr>]
        []"
  let ?d2 = "tables
        [\<lparr>pk = 1, email = Some ''root@x.org'', phone = None, hashed_password = ''pw'', is_active = True\<rparr>]
        [\<lparr>pk = 1, email = None, phone = Some ''555'', hashed_password = ''other'', is_active = True\<rparr>]
        [\<lparr>pk = 2, email = None, phone = Some ''555'', hashed_password = ''pw'', is_active = True\<rparr>]
        []"
  have h1: "length (filter (matches (ByEmail ''555'')) (?d1 User)) \<le> 1"
    and h2: "length (filter (matches (ByEmail ''555'')) (?d2 User)) \<le> 1"
    by simp_all
  note t1 = authenticate_six_probes [where d = ?d1 and u = "''555''" and p = "''pw''" and chk = ?chk, OF h1]
  note t2 = authenticate_six_probes [where d = ?d2 and u = "''555''" and p = "''pw''" and chk = ?chk, OF h2]
  from t1 have "\<forall>s. (\<forall>r \<in> set (?d1 User). email r = Some ''555'' \<longrightarrow> \<not> ?chk (from_db User r) ''pw'') \<longrightarrow>
          find (matches (ByPhone ''555'')) (?d1 Staff) = Some s \<longrightarrow> ?chk (from_db Staff s) ''pw'' \<longrightarrow>
          authenticate ?chk ?d1 (Some ''555'') (Some ''pw'') =
            (Inr (Some (from_db Staff s)), [Get User (ByEmail ''555''), FilterFirst Staff (ByPhone ''555'')])"
    by blast
  from this [rule_format, of ?s] have a: "authenticate ?chk ?d1 (Some ''555'') (Some ''pw'') =
            (Inr (Some (from_db Staff ?s)), [Get User (ByEmail ''555''), FilterFirst Staff (ByPhone ''555'')])"
    by (simp add: from_db_def)
  from t2 have "fst (authenticate ?chk ?d2 (Some ''555'') (Some ''pw'')) = Inr (fst (run_probes ?chk ?d2 ''555'' ''pw'' PROBES))"
    and "map query_target (snd (authenticate ?chk ?d2 (Some ''555'') (Some ''pw''))) =
        map Some (snd (run_probes ?chk ?d2 ''555'' ''pw'' PROBES))"
    by blast+
  then have b: "fst (authenticate ?chk ?d2 (Some ''555'') (Some ''pw'')) = Inr (Some (from_db Parent
        \<lparr>pk = 2, email = None, phone = Some ''555'', hashed_password = ''pw'', is_active = True\<rparr>))"
    and c: "map query_target (snd (authenticate ?chk ?d2 (Some ''555'') (Some ''pw''))) =
     [Some (User, ByEmail ''555''), Some (Staff, ByPhone ''555''), Some (Staff, ByEmail ''555''),
      Some (Parent, ByPhone ''555'')]"
    by (simp_all add: PROBES_def from_db_def)
  from a b c show ?thesis by blast
qed




text \<open>
  C10. \<open>authenticate\<close> returns a result (it does not raise) whenever at most one admin has
  the identifier as email, whatever the Staff, Parent and Student tables hold, duplicates
  included. When two or more admins share the email, and both arguments are given, the one
  store access is the \<^verbatim>\<open>get\<close> on the \<^verbatim>\<open>User\<close> table and
  \<^verbatim>\<open>MultipleObjectsReturned\<close> escapes. The lookup of the other five probes,
  \<^verbatim>\<open>filter(...).first()\<close>, never raises: it yields the first matching row in the order
  of the table, or \<^verbatim>\<open>None\<close>.
\<close>

theorem authenticate_raises_only_on_duplicate_admin:
  "((\<forall>u. username = Some u \<longrightarrow> length (filter (matches (ByEmail u)) (d User)) \<le> 1) \<longrightarrow>
      (\<exists>res. fst (authenticate chk d username password) = Inr res))
   \<and> (2 \<le> length (filter (matches (ByEmail u)) (d User)) \<longrightarrow>
        authenticate chk d (Some u) (Some p) =
          (Inl (MultipleObjectsReturned User), [Get User (ByEmail u)]))
   \<and> objects_filter_first d m lk =
        (Inr (map_option (from_db m) (find (matches lk) (d m))), [FilterFirst m lk])"
proof -
  have a: "(\<forall>u. username = Some u \<longrightarrow> length (filter (matches (ByEmail u)) (d User)) \<le> 1) \<longrightarrow>
      (\<exists>res. fst (authenticate chk d username password) = Inr res)"
  proof
    assume one: "\<forall>u. username = Some u \<longrightarrow> length (filter (matches (ByEmail u)) (d User)) \<le> 1"
    show "\<exists>res. fst (authenticate chk d username password) = Inr res"
    proof (cases username)
      case None
      then show ?thesis by (simp add: authenticate_def return_io_def)
    next
      case u: (Some u)
      show ?thesis
      proof (cases password)
        case None
        then show ?thesis by (simp add: authenticate_def return_io_def split: option.splits)
      next
        case (Some p)
        from one u have "length (filter (matches (ByEmail u)) (d User)) \<le> 1" by simp
        from authenticate_run_probes [where d = d and u = u and chk = chk and p = p, OF this]
        show ?thesis by (simp add: u Some)
      qed
    qed
  qed
  have c: "objects_filter_first d m lk =
        (Inr (map_option (from_db m) (find (matches lk) (d m))), [FilterFirst m lk])"
    by (simp add: objects_filter_first_def filter_first_find)
  from a c authenticate_duplicate_admin [of u d chk p] show ?thesis by blast
qed

text \<open>
  Two admins with the same email make \<open>authenticate\<close> raise; two Staff members with the
  same phone do not, and the lookup yields the first of them.
\<close>

theorem authenticate_raises_only_on_duplicate_admin_witness:
  "authenticate plaintext_check
     (tables
        [\<lparr>pk = 1, email = Some ''a@x.org'', phone = None, hashed_password = ''pw'', is_active = True\<rparr>,
         \<lparr>pk = 2, email = Some ''a@x.org'', phone = None, hashed_password = ''pw'', is_active = True\<rparr>]
        []
        []
        [])
     (Some ''a@x.org'') (Some ''pw'') =
     (Inl (MultipleObjectsReturned User), [Get User (ByEmail ''a@x.org'')])
   \<and> (\<exists>res. fst (authenticate plaintext_check
     (tables
        []
        [\<lparr>pk = 1, email = None, phone = Some ''555'', hashed_password = ''pw'', is_active = True\<rparr>,
         \<lparr>pk = 2, email = None, phone = Some ''555'', hashed_password = ''pw'', is_active = True\<rparr>]
        []
        [])
     (Some ''555'') (Some ''pw'')) = Inr res)
   \<and> objects_filter_first
     (tables
        []
        [\<lparr>pk = 1, email = None, phone = Some ''555'', hashed_password = ''pw'', is_active = True\<rparr>,
         \<lparr>pk = 2, email = None, phone = Some ''555'', hashed_password = ''pw'', is_active = True\<rparr>]
        []
        [])
     Staff (ByPhone ''555'') =
     (Inr (Some (from_db Staff
        \<lparr>pk = 1, email = None, phone = Some ''555'', hashed_password = ''pw'', is_active = True\<rparr>)),
      [FilterFirst Staff (ByPhone ''555'')])"
proof -
  let ?chk = plaintext_check
  let ?d1 = "tables
        [\<lparr>pk = 1, email = Some ''a@x.org'', phone = None, hashed_password = ''pw'', is_active = True\<rparr>,
         \<lparr>pk = 2, email = Some ''a@x.org'', phone = None, hashed_password = ''pw'', is_active = True\<rparr>]
        []
        []
        []"
  let ?d2 = "tables
        []
        [\<lparr>pk = 1, email = None, phone = Some ''555'', hashed_password = ''pw'', is_active = True\<rparr>,
         \<lparr>pk = 2, email = None, phone = Some ''555'', hashed_password = ''pw'', is_active = True\<rparr>]
        []
        []"
  note t1 = authenticate_raises_only_on_duplicate_admin
    [where d = ?d1 and u = "''a@x.org''" and p = "''pw''" and chk = ?chk]
  note t2 = authenticate_raises_only_on_duplicate_admin
    [where d = ?d2 and username = "Some ''555''" and password = "Some ''pw''" and chk = ?chk
       and m = Staff and lk = "ByPhone ''555''"]
  have "2 \<le> length (filter (matches (ByEmail ''a@x.org'')) (?d1 User))" by simp
  with t1 have a: "authenticate ?chk ?d1 (Some ''a@x.org'') (Some ''pw'') =
     (Inl (MultipleObjectsReturned User), [Get User (ByEmail ''a@x.org'')])"
    by blast
  have "\<forall>u. Some ''555'' = Some u \<longrightarrow> length (filter (matches (ByEmail u)) (?d2 User)) \<le> 1"
    by simp
  with t2 have b: "\<exists>res. fst (authenticate ?chk ?d2 (Some ''555'') (Some ''pw'')) = Inr res"
    by blast
  from t2 have "objects_filter_first ?d2 Staff (ByPhone ''555'') =
        (Inr (map_option (from_db Staff) (find (matches (ByPhone ''555'')) (?d2 Staff))),
         [FilterFirst Staff (ByPhone ''555'')])"
    by blast
  then have c: "objects_filter_first ?d2 Staff (ByPhone ''555'') =
     (Inr (Some (from_db Staff
        \<lparr>pk = 1, email = None, phone = Some ''555'', hashed_password = ''pw'', is_active = True\<rparr>)),
      [FilterFirst Staff (ByPhone ''555'')])"
    by simp
  from a b c show ?thesis by blast
qed

section \<open>Properties of the permission operations\<close>

text \<open>
  C7. For an active, non-anonymous Staff or Student instance and no object argument: on an
  instance without the cache attribute, \<open>get_group_permissions\<close> queries the instance's
  groups and each group's permissions, returns the union over the groups of their
  permission strings, and stores that set on the instance; on an instance that has the
  attribute it returns the stored set and makes no query. Hence a call on the instance that
  an earlier call left behind returns the same set without any query, whatever the group
  store holds by then. A permission string is the namespace, a dot and the action.
\<close>

theorem get_group_permissions_cached:
  assumes "is_active (columns u)" and "\<not> is_anonymous u" and "cls u \<in> {Staff, Student}"
  shows "(group_perm_cache u = None \<longrightarrow>
      get_group_permissions sgg gs u None =
        (\<Union>g \<in> set (user_groups gs (cls u) (pk (columns u))).
            perm_string ` set (group_permissions gs g),
         u\<lparr>group_perm_cache :=
             Some (\<Union>g \<in> set (user_groups gs (cls u) (pk (columns u))).
                     perm_string ` set (group_permissions gs g))\<rparr>,
         GroupsAll (cls u) (pk (columns u))
           # map PermissionsValuesList (user_groups gs (cls u) (pk (columns u)))))
    \<and> (\<forall>cache. group_perm_cache u = Some cache \<longrightarrow>
          get_group_permissions sgg gs u None = (cache, u, []))
    \<and> (\<forall>gs'. get_group_permissions sgg gs'
                 (fst (snd (get_group_permissions sgg gs u None))) None =
               (fst (get_group_permissions sgg gs u None),
                fst (snd (get_group_permissions sgg gs u None)), []))
    \<and> perm_string (ct, name) = ct @ ''.'' @ name"
proof -
  have fresh: "group_perm_cache u = None \<longrightarrow>
      get_group_permissions sgg gs u None =
        (\<Union>g \<in> set (user_groups gs (cls u) (pk (columns u))).
            perm_string ` set (group_permissions gs g),
         u\<lparr>group_perm_cache :=
             Some (\<Union>g \<in> set (user_groups gs (cls u) (pk (columns u))).
                     perm_string ` set (group_permissions gs g))\<rparr>,
         GroupsAll (cls u) (pk (columns u))
           # map PermissionsValuesList (user_groups gs (cls u) (pk (columns u))))"
    using assms by (simp add: get_group_permissions_def update_perms_union Let_def)
  have hit: "\<forall>cache. group_perm_cache u = Some cache \<longrightarrow>
          get_group_permissions sgg gs u None = (cache, u, [])"
    using assms by (simp add: get_group_permissions_def)
  have again: "\<forall>gs'. get_group_permissions sgg gs'
                 (fst (snd (get_group_permissions sgg gs u None))) None =
               (fst (get_group_permissions sgg gs u None),
                fst (snd (get_group_permissions sgg gs u None)), [])"
    using assms by (cases "group_perm_cache u") (simp_all add: get_group_permissions_def Let_def)
  have "perm_string (ct, name) = ct @ ''.'' @ name"
    by (simp add: perm_string_def)
  with fresh hit again show ?thesis by blast
qed

text \<open>
  The specification's example: a Student in group 10, which grants \<^verbatim>\<open>app.view_x\<close>, and in
  group 20, which grants \<^verbatim>\<open>app.edit_y\<close>. The first call makes three queries; the second
  call, on the instance the first one left, makes none and returns the same set although
  the group store has been emptied.
\<close>

theorem get_group_permissions_cached_witness:
  "get_group_permissions (\<lambda>user (obj :: unit option). ({}, user, []))
     \<lparr>user_groups = (\<lambda>m k. if m = Student \<and> k = 1 then [10, 20] else []),
      group_permissions = (\<lambda>g. if g = 10 then [(''app'', ''view_x'')]
                               else if g = 20 then [(''app'', ''edit_y'')] else [])\<rparr>
     (from_db Student
        \<lparr>pk = 1, email = None, phone = Some ''555'', hashed_password = ''pw'', is_active = True\<rparr>)
     None =
     ({''app.view_x'', ''app.edit_y''},
      (from_db Student
        \<lparr>pk = 1, email = None, phone = Some ''555'', hashed_password = ''pw'', is_active = True\<rparr>)
        \<lparr>group_perm_cache := Some {''app.view_x'', ''app.edit_y''}\<rparr>,
      [GroupsAll Student 1, PermissionsValuesList 10, PermissionsValuesList 20])
   \<and> get_group_permissions (\<lambda>user (obj :: unit option). ({}, user, []))
     \<lparr>user_groups = (\<lambda>m k. []), group_permissions = (\<lambda>g. [])\<rparr>
     ((from_db Student
        \<lparr>pk = 1, email = None, phone = Some ''555'', hashed_password = ''pw'', is_active = True\<rparr>)
        \<lparr>group_perm_cache := Some {''app.view_x'', ''app.edit_y''}\<rparr>)
     None =
     ({''app.view_x'', ''app.edit_y''},
      (from_db Student
        \<lparr>pk = 1, email = None, phone = Some ''555'', hashed_password = ''pw'', is_active = True\<rparr>)
        \<lparr>group_perm_cache := Some {''app.view_x'', ''app.edit_y''}\<rparr>,
      [])"
proof -
  let ?sgg = "\<lambda>user (obj :: unit option). ({} :: string set, user :: user_obj, [] :: query list)"
  let ?gs = "\<lparr>user_groups = (\<lambda>m k. if m = Student \<and> k = 1 then [10, 20] else []),
      group_permissions = (\<lambda>g. if g = 10 then [(''app'', ''view_x'')]
                               else if g = 20 then [(''app'', ''edit_y'')] else [])\<rparr>"
  let ?gs' = "\<lparr>user_groups = (\<lambda>m k. []), group_permissions = (\<lambda>g. [])\<rparr>"
  let ?u = "from_db Student
        \<lparr>pk = 1, email = None, phone = Some ''555'', hashed_password = ''pw'', is_active = True\<rparr>"
  let ?P = "{''app.view_x'', ''app.edit_y''}"
  have pre: "is_active (columns ?u)" "\<not> is_anonymous ?u" "cls ?u \<in> {Staff, Student}"
    by (simp_all add: from_db_def)
  note t = get_group_permissions_cached [where u = ?u and sgg = ?sgg and gs = ?gs, OF pre]
  have "group_perm_cache ?u = None" by (simp add: from_db_def)
  with t have "get_group_permissions ?sgg ?gs ?u None =
        (\<Union>g \<in> set (user_groups ?gs (cls ?u) (pk (columns ?u))).
            perm_string ` set (group_permissions ?gs g),
         ?u\<lparr>group_perm_cache :=
             Some (\<Union>g \<in> set (user_groups ?gs (cls ?u) (pk (columns ?u))).
                     perm_string ` set (group_permissions ?gs g))\<rparr>,
         GroupsAll (cls ?u) (pk (columns ?u))
           # map PermissionsValuesList (user_groups ?gs (cls ?u) (pk (columns ?u))))"
    by blast
  moreover have "(\<Union>g \<in> set (user_groups ?gs (cls ?u) (pk (columns ?u))).
            perm_string ` set (group_permissions ?gs g)) = ?P"
    by (simp add: from_db_def perm_string_def insert_commute)
  ultimately have first: "get_group_permissions ?sgg ?gs ?u None =
     (?P, ?u\<lparr>group_perm_cache := Some ?P\<rparr>,
      [GroupsAll Student 1, PermissionsValuesList 10, PermissionsValuesList 20])"
    by (simp add: from_db_def)
  from t have "get_group_permissions ?sgg ?gs' (fst (snd (get_group_permissions ?sgg ?gs ?u None))) None =
               (fst (get_group_permissions ?sgg ?gs ?u None),
                fst (snd (get_group_permissions ?sgg ?gs ?u None)), [])"
    by blast
  then have second: "get_group_permissions ?sgg ?gs' (?u\<lparr>group_perm_cache := Some ?P\<rparr>) None =
     (?P, ?u\<lparr>group_perm_cache := Some ?P\<rparr>, [])"
    unfolding first by simp
  from first second show ?thesis by blast
qed

text \<open>
  C8. When the instance is not active, or is anonymous, or an object is supplied,
  \<open>get_group_permissions\<close> and \<open>get_all_permissions\<close> return the empty set and
  \<open>has_perm\<close> returns \<^verbatim>\<open>False\<close>; the instance is left as it was and no store is accessed,
  whatever the groups grant and whatever the superclass would return. For the instances
  that are neither Staff nor Student, \<open>has_perm\<close> reaches the verdict through
  \<^verbatim>\<open>ModelBackend.has_perm\<close>, which asks the overridden \<open>get_all_permissions\<close>.
\<close>

theorem permissions_denied:
  assumes "\<not> is_active (columns u) \<or> is_anonymous u \<or> obj \<noteq> None"
  shows "get_group_permissions sgg gs u obj = ({}, u, [])
    \<and> get_all_permissions sga sgg gs u obj = ({}, u, [])
    \<and> has_perm sga sgg gs u perm obj = (False, u, [])"
proof -
  have g: "get_group_permissions sgg gs u obj = ({}, u, [])"
    using assms by (auto simp: get_group_permissions_def)
  have a: "get_all_permissions sga sgg gs u obj = ({}, u, [])"
    using assms by (auto simp: get_all_permissions_def)
  have "has_perm sga sgg gs u perm obj = (False, u, [])"
    by (simp add: has_perm_def ModelBackend_has_perm_def a)
  with g a show ?thesis by blast
qed

text \<open>
  An inactive Student, an active Staff member with an object and an active admin with an
  object are all denied \<^verbatim>\<open>app.view_x\<close>, which a group and the superclass would grant.
\<close>

theorem permissions_denied_witness:
  "has_perm (\<lambda>user (obj :: unit option). ({''app.view_x''}, user, []))
       (\<lambda>user obj. ({''app.view_x''}, user, []))
       \<lparr>user_groups = (\<lambda>m k. [10]), group_permissions = (\<lambda>g. [(''app'', ''view_x'')])\<rparr>
       (from_db Student
          \<lparr>pk = 1, email = None, phone = Some ''555'', hashed_password = ''pw'', is_active = False\<rparr>)
       ''app.view_x'' None =
     (False,
      from_db Student
          \<lparr>pk = 1, email = None, phone = Some ''555'', hashed_password = ''pw'', is_active = False\<rparr>,
      [])
   \<and> has_perm (\<lambda>user (obj :: unit option). ({''app.view_x''}, user, []))
       (\<lambda>user obj. ({''app.view_x''}, user, []))
       \<lparr>user_groups = (\<lambda>m k. [10]), group_permissions = (\<lambda>g. [(''app'', ''view_x'')])\<rparr>
       (from_db Staff
          \<lparr>pk = 1, email = None, phone = Some ''555'', hashed_password = ''pw'', is_active = True\<rparr>)
       ''app.view_x'' (Some ()) =
     (False,
      from_db Staff
          \<lparr>pk = 1, email = None, phone = Some ''555'', hashed_password = ''pw'', is_active = True\<rparr>,
      [])
   \<and> has_perm (\<lambda>user (obj :: unit option). ({''app.view_x''}, user, []))
       (\<lambda>user obj. ({''app.view_x''}, user, []))
       \<lparr>user_groups = (\<lambda>m k. [10]), group_permissions = (\<lambda>g. [(''app'', ''view_x'')])\<rparr>
       (from_db User
          \<lparr>pk = 1, email = Some ''root@x.org'', phone = None, hashed_password = ''pw'', is_active = True\<rparr>)
       ''app.view_x'' (Some ()) =
     (False,
      from_db User
          \<lparr>pk = 1, email = Some ''root@x.org'', phone = None, hashed_password = ''pw'', is_active = True\<rparr>,
      [])"
  using permissions_denied [of
      "from_db Student
          \<lparr>pk = 1, email = None, phone = Some ''555'', hashed_password = ''pw'', is_active = False\<rparr>"
      "None :: unit option"]
    permissions_denied [of
      "from_db Staff
          \<lparr>pk = 1, email = None, phone = Some ''555'', hashed_password = ''pw'', is_active = True\<rparr>"
      "Some ()"]
    permissions_denied [of
      "from_db User
          \<lparr>pk = 1, email = Some ''root@x.org'', phone = None, hashed_password = ''pw'', is_active = True\<rparr>"
      "Some ()"]
  by (simp add: from_db_def)

end
